theory Spec2Isabelle
  imports Main "HOL-Library.Word"
begin

unbundle bit_operations_syntax

section \<open>The FT80x character driver (drivers/lcd/ft80x_base.c)\<close>

text \<open>
  The driver is embedded function by function.  Every function returns its C return value
  together with the list of the effects it performed, in program order: semaphore calls,
  accesses to the two lifecycle fields, transport calls, allocation and release.  Functions
  that modify the driver instance also return the instance, \<open>None\<close> once \<open>kmm_free\<close> has
  released it.

  Conventions.
  \<^item> \<open>DEBUGASSERT\<close> expands to nothing unless \<open>CONFIG_DEBUG_ASSERTIONS\<close> is selected; the
    embedding is the build without it.  Its conditions on pointers (\<open>filep\<close>, \<open>inode\<close>,
    \<open>priv\<close>, \<open>lower\<close>) hold by typing here.
  \<^item> \<open>lcdinfo\<close> and \<open>lcderr\<close> are debug output and are not embedded.
  \<^item> \<open>CONFIG_DISABLE_PSEUDOFS_OPERATIONS\<close> is not selected (otherwise \<open>open\<close> and \<open>close\<close>
    are empty and there is no \<open>unlink\<close>).
  \<^item> The outcome of \<open>nxsem_wait\<close> is an input \<open>w\<close> of each function that takes the
    semaphore: the value the call returns, negative when the wait fails.
\<close>

subsection \<open>errno values (errno.h)\<close>

abbreviation OK :: int where "OK \<equiv> 0"
abbreviation ENOMEM :: int where "ENOMEM \<equiv> 12"
abbreviation ENODEV :: int where "ENODEV \<equiv> 19"
abbreviation EINVAL :: int where "EINVAL \<equiv> 22"
abbreviation EMFILE :: int where "EMFILE \<equiv> 24"
abbreviation ENOTTY :: int where "ENOTTY \<equiv> 25"

subsection \<open>Data\<close>

text \<open>
  The structure declarations are in \<open>ft80x.h\<close> and \<open>nuttx/lcd/ft80x.h\<close>, which are not
  among the sources; the records have the fields the source file uses.

  \<open>struct ft80x_config_s\<close>, the lower half: the two bus frequencies and whether a
  \<open>destroy\<close> method is provided (\<open>lower->destroy != NULL\<close>).  \<open>pwrdown\<close> is always
  provided.
\<close>

record ft80x_config_s =
  init_frequency :: "32 word"
  op_frequency :: "32 word"
  has_destroy :: bool

text \<open>
  \<open>struct ft80x_dev_s\<close>, the driver instance.  \<open>bus\<close> is the cached \<open>spi\<close> or \<open>i2c\<close>
  handle.  \<open>exclsem\<close> is the count of the mutual exclusion semaphore: \<open>sem_init\<close> sets
  it to 1, a successful \<open>nxsem_wait\<close> takes one off, \<open>nxsem_post\<close> adds one.  \<open>crefs\<close>
  is the open count, a \<open>uint8_t\<close> (\<open>ft80x_open\<close>: "More than 255 opens; uint8_t
  overflows to zero").
\<close>

record ft80x_dev_s =
  bus :: nat
  lower :: ft80x_config_s
  frequency :: "32 word"
  exclsem :: int
  crefs :: "8 word"
  unlinked :: bool

text \<open>
  The effects a driver function performs.  \<open>RdCrefs\<close>, \<open>WrCrefs\<close>, \<open>RdUnlinked\<close> and
  \<open>WrUnlinked\<close> are the reads and writes of \<open>priv->crefs\<close> and \<open>priv->unlinked\<close>;
  \<open>Destroy\<close> is a call of \<open>ft80x_destroy\<close>, \<open>LowerDestroy\<close> the lower half's \<open>destroy\<close>
  method, \<open>SetFrequency\<close> an assignment to \<open>priv->frequency\<close>; the others carry the
  name of the function called.
\<close>

datatype event =
    SemInit | SemWait | SemWaitFailed | SemPost | SemDestroy
  | RdCrefs | WrCrefs "8 word" | RdUnlinked | WrUnlinked bool
  | Destroy "8 word" bool
  | LowerDestroy | KmmZalloc | KmmZallocFailed | KmmFree
  | RegisterDriver string | RegisterDriverFailed string
  | PwrDown bool | MDelay nat | SetFrequency "32 word"
  | HostCommand "32 word"
  | ReadByte "32 word" | ReadWord "32 word"
  | WriteByte "32 word" "8 word" | WriteHword "32 word" "16 word"
  | WriteWord "32 word" "32 word" | WriteMemory "32 word" "8 word list"

subsection \<open>Lifecycle: destroy, open, close, unlink\<close>

text \<open>
  \<open>ft80x_destroy\<close>: calls the lower half's \<open>destroy\<close> method if there is one, destroys
  the semaphore and frees the instance.  The first event records the call with the open
  count and the unlinked flag the instance has at that moment.
\<close>

definition ft80x_destroy :: "ft80x_dev_s \<Rightarrow> event list" where
  "ft80x_destroy priv =
     Destroy (crefs priv) (unlinked priv) #
     (if has_destroy (lower priv) then [LowerDestroy] else []) @
     [SemDestroy, KmmFree]"

definition ft80x_open :: "int \<Rightarrow> ft80x_dev_s \<Rightarrow> int \<times> event list \<times> ft80x_dev_s option" where
  "ft80x_open w priv =
     (if w < 0 then (w, [SemWaitFailed], Some priv)
      else
        let priv = priv\<lparr>exclsem := exclsem priv - 1\<rparr>;
            tmp = crefs priv + 1
        in if tmp = 0
           then (- EMFILE, [SemWait, RdCrefs, SemPost],
                 Some (priv\<lparr>exclsem := exclsem priv + 1\<rparr>))
           else
             let priv = priv\<lparr>crefs := tmp\<rparr>
             in (OK, [SemWait, RdCrefs, WrCrefs tmp, SemPost],
                 Some (priv\<lparr>exclsem := exclsem priv + 1\<rparr>)))"

definition ft80x_close :: "int \<Rightarrow> ft80x_dev_s \<Rightarrow> int \<times> event list \<times> ft80x_dev_s option" where
  "ft80x_close w priv =
     (if w < 0 then (w, [SemWaitFailed], Some priv)
      else
        let priv = priv\<lparr>exclsem := exclsem priv - 1\<rparr>
        in if crefs priv \<le> 1
           then
             let priv = priv\<lparr>crefs := 0\<rparr>
             in if unlinked priv
                then (OK, [SemWait, RdCrefs, WrCrefs 0, RdUnlinked] @ ft80x_destroy priv, None)
                else (OK, [SemWait, RdCrefs, WrCrefs 0, RdUnlinked, SemPost],
                      Some (priv\<lparr>exclsem := exclsem priv + 1\<rparr>))
           else
             let priv = priv\<lparr>crefs := crefs priv - 1\<rparr>
             in (OK, [SemWait, RdCrefs, RdCrefs, WrCrefs (crefs priv), SemPost],
                 Some (priv\<lparr>exclsem := exclsem priv + 1\<rparr>)))"

definition ft80x_unlink :: "ft80x_dev_s \<Rightarrow> int \<times> event list \<times> ft80x_dev_s option" where
  "ft80x_unlink priv =
     (let priv = priv\<lparr>unlinked := True\<rparr>
      in if crefs priv = 0
         then (OK, [WrUnlinked True, RdCrefs] @ ft80x_destroy priv, None)
         else (OK, [WrUnlinked True, RdCrefs], Some priv))"

text \<open>
  Sequences of calls on one instance.  A call made after the instance was freed
  dereferences freed memory, which C leaves undefined: \<open>run_calls\<close> is \<open>None\<close> there.
  Otherwise it returns the effects of all calls in order and the instance that remains.
\<close>

datatype call = Open int | Close int | Unlink

fun driver_call :: "call \<Rightarrow> ft80x_dev_s \<Rightarrow> int \<times> event list \<times> ft80x_dev_s option" where
  "driver_call (Open w) priv = ft80x_open w priv"
| "driver_call (Close w) priv = ft80x_close w priv"
| "driver_call Unlink priv = ft80x_unlink priv"

fun run_calls :: "call list \<Rightarrow> ft80x_dev_s \<Rightarrow> (event list \<times> ft80x_dev_s option) option" where
  "run_calls [] priv = Some ([], Some priv)"
| "run_calls (c # cs) priv =
     (case driver_call c priv of
        (r, ev, Some priv') \<Rightarrow>
          (case run_calls cs priv' of
             None \<Rightarrow> None
           | Some (tr, s) \<Rightarrow> Some (ev @ tr, s))
      | (r, ev, None) \<Rightarrow> (if cs = [] then Some (ev, None) else None))"

text \<open>Observations on a list of effects.\<close>

definition is_destroy :: "event \<Rightarrow> bool" where
  "is_destroy e = (case e of Destroy c u \<Rightarrow> True | _ \<Rightarrow> False)"

definition destroy_count :: "event list \<Rightarrow> nat" where
  "destroy_count tr = length (filter is_destroy tr)"

definition destroy_idle :: "event \<Rightarrow> bool" where
  "destroy_idle e = (case e of Destroy c u \<Rightarrow> c = 0 \<and> u | _ \<Rightarrow> True)"

fun nothing_after_free :: "event list \<Rightarrow> bool" where
  "nothing_after_free [] = True"
| "nothing_after_free (e # es) = (if e = KmmFree then es = [] else nothing_after_free es)"

definition is_access :: "event \<Rightarrow> bool" where
  "is_access e =
     (case e of RdCrefs \<Rightarrow> True | WrCrefs v \<Rightarrow> True | RdUnlinked \<Rightarrow> True
      | WrUnlinked v \<Rightarrow> True | _ \<Rightarrow> False)"

text \<open>
  \<open>accesses_locked held tr\<close>: every access to \<open>crefs\<close> or \<open>unlinked\<close> in \<open>tr\<close> happens
  while the semaphore is held, \<open>held\<close> telling whether it is at the start.
\<close>

fun accesses_locked :: "bool \<Rightarrow> event list \<Rightarrow> bool" where
  "accesses_locked held [] = True"
| "accesses_locked held (e # es) =
     (if is_access e \<and> \<not> held then False
      else accesses_locked
             (if e = SemWait then True
              else if e = SemPost \<or> e = SemDestroy then False else held) es)"

definition is_transport :: "event \<Rightarrow> bool" where
  "is_transport e =
     (case e of PwrDown b \<Rightarrow> True | HostCommand c \<Rightarrow> True
      | ReadByte a \<Rightarrow> True | ReadWord a \<Rightarrow> True
      | WriteByte a v \<Rightarrow> True | WriteHword a v \<Rightarrow> True
      | WriteWord a v \<Rightarrow> True | WriteMemory a bs \<Rightarrow> True | _ \<Rightarrow> False)"

definition is_write :: "event \<Rightarrow> bool" where
  "is_write e =
     (case e of WriteByte a v \<Rightarrow> True | WriteHword a v \<Rightarrow> True
      | WriteWord a v \<Rightarrow> True | WriteMemory a bs \<Rightarrow> True | _ \<Rightarrow> False)"

subsection \<open>Header constants and the device\<close>

text \<open>
  The register addresses, sizes and command codes come from \<open>ft80x.h\<close> and
  \<open>nuttx/lcd/ft80x.h\<close>.  They are a parameter \<open>h\<close> of the embedding, a function from
  the macro's name to its value.  \<open>FT80X_CLEAR_COLOR_RGB_0_0_0\<close>, \<open>FT80X_CLEAR_1_1_1\<close> and
  \<open>FT80X_DISPLAY\<close> stand for the three display list words
  \<open>FT80X_CLEAR_COLOR_RGB(0,0,0)\<close>, \<open>FT80X_CLEAR(1,1,1)\<close> and \<open>FT80X_DISPLAY()\<close>.
\<close>

datatype ft80x_sym =
    FT80X_REG_ID | FT80X_ROM_CHIPID | ID_MASK
  | FT80X_CMD_CLKEXT | FT80X_CMD_ACTIVE
  | FT80X_RAM_DL | FT80X_RAM_DL_SIZE | FT80X_REG_TRACKER
  | FT80X_REG_PCLK | FT80X_REG_PCLK_POL | FT80X_REG_CSPREAD | FT80X_REG_SWIZZLE
  | FT80X_REG_HCYCLE | FT80X_REG_HOFFSET | FT80X_REG_HSIZE | FT80X_REG_HSYNC0 | FT80X_REG_HSYNC1
  | FT80X_REG_VCYCLE | FT80X_REG_VOFFSET | FT80X_REG_VSIZE | FT80X_REG_VSYNC0 | FT80X_REG_VSYNC1
  | FT80X_REG_DLSWAP | DLSWAP_FRAME | FT80X_REG_GPIO_DIR | FT80X_REG_GPIO
  | FT80X_CLEAR_COLOR_RGB_0_0_0 | FT80X_CLEAR_1_1_1 | FT80X_DISPLAY

type_synonym ft80x_hdr = "ft80x_sym \<Rightarrow> 32 word"

text \<open>The build selects the chip (\<open>CONFIG_LCD_FT800\<close> or \<open>CONFIG_LCD_FT801\<close>) and the
  display (\<open>CONFIG_LCD_FT80X_WQVGA\<close> or \<open>CONFIG_LCD_FT80X_QVGA\<close>).\<close>

datatype chip = FT800 | FT801

datatype display = WQVGA | QVGA

definition ROMID :: "chip \<Rightarrow> 32 word" where
  "ROMID c = (case c of FT800 \<Rightarrow> 0x01000800 | FT801 \<Rightarrow> 0x01000801)"

definition DEVNAME :: "chip \<Rightarrow> string" where
  "DEVNAME c = (case c of FT800 \<Rightarrow> ''/dev/ft800'' | FT801 \<Rightarrow> ''/dev/ft801'')"

text \<open>
  Modelled from the spec: the transport (\<open>ft80x_read_byte\<close>, \<open>ft80x_read_word\<close>,
  \<open>ft80x_write_byte\<close>, \<open>ft80x_write_hword\<close>, \<open>ft80x_write_word\<close>,
  \<open>ft80x_write_memory\<close>, \<open>ft80x_host_command\<close>) lives in the bus specific files, which
  are not among the sources.  Each call is recorded as an event; a read returns what the
  device holds at the address, given by \<open>ft80x_device\<close>.
\<close>

record ft80x_device =
  dev_byte :: "32 word \<Rightarrow> 8 word"
  dev_word :: "32 word \<Rightarrow> 32 word"

subsection \<open>Bring-up: \<open>ft80x_initialize\<close>\<close>

text \<open>The timing registers, lines 667 to 699 of the source, by display.\<close>

definition timing_registers :: "ft80x_hdr \<Rightarrow> display \<Rightarrow> event list" where
  "timing_registers h d =
     (case d of
        WQVGA \<Rightarrow>
          [WriteHword (h FT80X_REG_HCYCLE) 548, WriteHword (h FT80X_REG_HOFFSET) 43,
           WriteHword (h FT80X_REG_HSYNC0) 0, WriteHword (h FT80X_REG_HSYNC1) 41,
           WriteHword (h FT80X_REG_VCYCLE) 292, WriteHword (h FT80X_REG_VOFFSET) 12,
           WriteHword (h FT80X_REG_VSYNC0) 0, WriteHword (h FT80X_REG_VSYNC1) 10,
           WriteByte (h FT80X_REG_SWIZZLE) 0, WriteByte (h FT80X_REG_PCLK_POL) 1,
           WriteByte (h FT80X_REG_CSPREAD) 1,
           WriteHword (h FT80X_REG_HSIZE) 480, WriteHword (h FT80X_REG_VSIZE) 272]
      | QVGA \<Rightarrow>
          [WriteHword (h FT80X_REG_HCYCLE) 408, WriteHword (h FT80X_REG_HOFFSET) 70,
           WriteHword (h FT80X_REG_HSYNC0) 0, WriteHword (h FT80X_REG_HSYNC1) 10,
           WriteHword (h FT80X_REG_VCYCLE) 263, WriteHword (h FT80X_REG_VOFFSET) 13,
           WriteHword (h FT80X_REG_VSYNC0) 0, WriteHword (h FT80X_REG_VSYNC1) 2,
           WriteByte (h FT80X_REG_SWIZZLE) 0, WriteByte (h FT80X_REG_PCLK_POL) 0,
           WriteByte (h FT80X_REG_CSPREAD) 1,
           WriteHword (h FT80X_REG_HSIZE) 320, WriteHword (h FT80X_REG_VSIZE) 240])"

text \<open>
  The second half of \<open>ft80x_initialize\<close>, lines 665 to 736 of the source: what the
  function does once both identity checks have passed.
\<close>

definition ft80x_initialize_display ::
  "ft80x_hdr \<Rightarrow> display \<Rightarrow> ft80x_device \<Rightarrow> ft80x_dev_s \<Rightarrow> event list \<times> ft80x_dev_s" where
  "ft80x_initialize_display h d dev priv =
     (let ev = [WriteByte (h FT80X_REG_PCLK) 0];
          ev = ev @ timing_registers h d;
          ev = ev @ [WriteWord (h FT80X_RAM_DL + 0) (h FT80X_CLEAR_COLOR_RGB_0_0_0),
                     WriteWord (h FT80X_RAM_DL + 4) (h FT80X_CLEAR_1_1_1),
                     WriteWord (h FT80X_RAM_DL + 8) (h FT80X_DISPLAY)];
          ev = ev @ [WriteByte (h FT80X_REG_DLSWAP) (ucast (h DLSWAP_FRAME))];
          regval8 = dev_byte dev (h FT80X_REG_GPIO_DIR);
          regval8 = regval8 OR push_bit 7 1;
          ev = ev @ [ReadByte (h FT80X_REG_GPIO_DIR), WriteByte (h FT80X_REG_GPIO_DIR) regval8];
          regval8 = dev_byte dev (h FT80X_REG_GPIO);
          regval8 = regval8 OR push_bit 7 1;
          ev = ev @ [ReadByte (h FT80X_REG_GPIO), WriteByte (h FT80X_REG_GPIO) regval8];
          ev = ev @ [WriteByte (h FT80X_REG_PCLK) 5];
          priv = priv\<lparr>frequency := op_frequency (lower priv)\<rparr>;
          ev = ev @ [SetFrequency (frequency priv)]
      in (ev, priv))"

text \<open>
  \<open>ft80x_initialize\<close>.  The source declares \<open>uint8_t regval32\<close>: each \<open>uint32_t\<close> that
  \<open>ft80x_read_word\<close> returns is converted to eight bits by the assignment, and the
  comparisons read the variable after the integer promotion.
\<close>

definition ft80x_initialize ::
  "ft80x_hdr \<Rightarrow> chip \<Rightarrow> display \<Rightarrow> ft80x_device \<Rightarrow> ft80x_dev_s
     \<Rightarrow> int \<times> event list \<times> ft80x_dev_s" where
  "ft80x_initialize h c d dev priv =
     (let ev = [PwrDown False, MDelay 20];
          priv = priv\<lparr>frequency := init_frequency (lower priv)\<rparr>;
          ev = ev @ [SetFrequency (frequency priv)];
          ev = ev @ [HostCommand (h FT80X_CMD_CLKEXT), HostCommand (h FT80X_CMD_ACTIVE)];
          regval32 = (ucast (dev_word dev (h FT80X_REG_ID)) :: 8 word);
          ev = ev @ [ReadWord (h FT80X_REG_ID)]
      in if (ucast regval32 :: 32 word) AND h ID_MASK \<noteq> 0x7c
         then (- ENODEV, ev, priv)
         else
           let regval32 = (ucast (dev_word dev (h FT80X_ROM_CHIPID)) :: 8 word);
               ev = ev @ [ReadWord (h FT80X_ROM_CHIPID)]
           in if (ucast regval32 :: 32 word) \<noteq> ROMID c
              then (- ENODEV, ev, priv)
              else
                case ft80x_initialize_display h d dev priv of
                  (ev', priv) \<Rightarrow> (OK, ev @ ev', priv))"

subsection \<open>Registration: \<open>ft80x_register\<close>\<close>

text \<open>
  \<open>alloc_ok\<close> tells whether \<open>kmm_zalloc\<close> returns memory, \<open>reg_ret\<close> is the value
  \<open>register_driver\<close> returns.  The memory is zeroed; \<open>lower\<close> and the bus handle are
  stored and the semaphore is initialised before \<open>ft80x_initialize\<close> runs.  The third
  component of the result is the instance memory that is still allocated when the function
  returns: \<open>None\<close> when nothing was allocated.
\<close>

definition ft80x_register ::
  "ft80x_hdr \<Rightarrow> chip \<Rightarrow> display \<Rightarrow> ft80x_device \<Rightarrow> bool \<Rightarrow> int \<Rightarrow> nat \<Rightarrow> ft80x_config_s
     \<Rightarrow> int \<times> event list \<times> ft80x_dev_s option" where
  "ft80x_register h c d dev alloc_ok reg_ret spi lw =
     (if \<not> alloc_ok then (- ENOMEM, [KmmZallocFailed], None)
      else
        let priv = \<lparr>bus = 0, lower = lw, frequency = 0, exclsem = 0, crefs = 0,
                    unlinked = False\<rparr>;
            priv = priv\<lparr>bus := spi\<rparr>;
            priv = priv\<lparr>exclsem := 1\<rparr>;
            ev = [KmmZalloc, SemInit]
        in case ft80x_initialize h c d dev priv of
             (ret, ev', priv) \<Rightarrow>
               if ret < 0 then (ret, ev @ ev' @ [SemDestroy], Some priv)
               else if reg_ret < 0
               then (reg_ret, ev @ ev' @ [RegisterDriverFailed (DEVNAME c), SemDestroy],
                     Some priv)
               else (OK, ev @ ev' @ [RegisterDriver (DEVNAME c)], Some priv))"

subsection \<open>The write path and the control operations\<close>

text \<open>
  A pointer argument is \<open>None\<close> when it is \<open>NULL\<close>.  A caller's buffer is its address
  and the bytes stored from that address on.  The two argument structures carry the
  address the source tests: \<open>cmd_addr\<close> is \<open>(uintptr_t)&dl->cmd\<close>, \<open>offset_addr\<close> is
  \<open>(uintptr_t)&result->offset\<close>.  \<open>uintptr_t\<close> and \<open>size_t\<close> have 32 bits.
\<close>

record user_buffer =
  buf_addr :: "32 word"
  buf_mem :: "nat \<Rightarrow> 8 word"

record ft80x_displaylist_s =
  cmd_addr :: "32 word"
  dlsize :: "32 word"
  cmd :: "nat \<Rightarrow> 8 word"

record ft80x_result32_s =
  offset_addr :: "32 word"
  offset :: "32 word"
  result_value :: "32 word"

datatype ioctl_arg =
    FT80XIOC_PUTDISPLAYLIST "ft80x_displaylist_s option"
  | FT80XIOC_GETRESULT32 "ft80x_result32_s option"
  | FT80XIOC_GETTRACKER "32 word option"
  | Unrecognized int

text \<open>
  \<open>ft80x_write\<close> and \<open>ft80x_ioctl\<close> take and post the semaphore and use the instance
  for nothing else; they change none of its fields.  \<open>ft80x_ioctl\<close> returns its argument
  with the value it stored through the pointer.
\<close>

definition ft80x_write ::
  "ft80x_hdr \<Rightarrow> int \<Rightarrow> user_buffer option \<Rightarrow> 32 word \<Rightarrow> int \<times> event list" where
  "ft80x_write h w buffer len =
     (case buffer of
        None \<Rightarrow> (- EINVAL, [])
      | Some b \<Rightarrow>
          if buf_addr b AND 3 \<noteq> 0 \<or> len = 0 \<or> len AND 3 \<noteq> 0 \<or> len > h FT80X_RAM_DL_SIZE
          then (- EINVAL, [])
          else if w < 0 then (w, [SemWaitFailed])
          else (uint len,
                [SemWait, WriteMemory (h FT80X_RAM_DL) (map (buf_mem b) [0..<unat len]),
                 SemPost]))"

definition ft80x_ioctl ::
  "ft80x_hdr \<Rightarrow> ft80x_device \<Rightarrow> int \<Rightarrow> ioctl_arg \<Rightarrow> int \<times> event list \<times> ioctl_arg" where
  "ft80x_ioctl h dev w arg =
     (if w < 0 then (w, [SemWaitFailed], arg)
      else
        case arg of
          FT80XIOC_PUTDISPLAYLIST None \<Rightarrow> (- EINVAL, [SemWait, SemPost], arg)
        | FT80XIOC_PUTDISPLAYLIST (Some dl) \<Rightarrow>
            if cmd_addr dl AND 3 \<noteq> 0 \<or> dlsize dl = 0 \<or> dlsize dl AND 3 \<noteq> 0
               \<or> dlsize dl > h FT80X_RAM_DL_SIZE
            then (- EINVAL, [SemWait, SemPost], arg)
            else (OK,
                  [SemWait,
                   WriteMemory (h FT80X_RAM_DL) (map (cmd dl) [0..<unat (dlsize dl)]),
                   SemPost], arg)
        | FT80XIOC_GETRESULT32 None \<Rightarrow> (- EINVAL, [SemWait, SemPost], arg)
        | FT80XIOC_GETRESULT32 (Some result) \<Rightarrow>
            if offset_addr result AND 3 \<noteq> 0 \<or> offset result \<ge> h FT80X_RAM_DL_SIZE
            then (- EINVAL, [SemWait, SemPost], arg)
            else (OK, [SemWait, ReadWord (h FT80X_RAM_DL + offset result), SemPost],
                  FT80XIOC_GETRESULT32
                    (Some (result\<lparr>result_value :=
                             dev_word dev (h FT80X_RAM_DL + offset result)\<rparr>)))
        | FT80XIOC_GETTRACKER None \<Rightarrow> (- EINVAL, [SemWait, SemPost], arg)
        | FT80XIOC_GETTRACKER (Some tracker) \<Rightarrow>
            (OK, [SemWait, ReadWord (h FT80X_REG_TRACKER), SemPost],
             FT80XIOC_GETTRACKER (Some (dev_word dev (h FT80X_REG_TRACKER))))
        | Unrecognized n \<Rightarrow> (- ENOTTY, [SemWait, SemPost], arg))"

text \<open>
  The request of the specification's words, for comparison with the source's tests: a
  display list request \<open>(pointer, length)\<close> is invalid when the pointer is null or not
  word aligned, or the length is zero, not a multiple of 4, or above the capacity.
  \<open>putdisplaylist\<close> is the PutDisplayList command issued with that request.
\<close>

definition request_invalid :: "ft80x_hdr \<Rightarrow> user_buffer option \<Rightarrow> 32 word \<Rightarrow> bool" where
  "request_invalid h buffer len =
     ((case buffer of None \<Rightarrow> True | Some b \<Rightarrow> unat (buf_addr b) mod 4 \<noteq> 0)
      \<or> unat len = 0 \<or> unat len mod 4 \<noteq> 0 \<or> unat len > unat (h FT80X_RAM_DL_SIZE))"

definition request_bytes :: "user_buffer option \<Rightarrow> 32 word \<Rightarrow> 8 word list" where
  "request_bytes buffer len =
     (case buffer of None \<Rightarrow> [] | Some b \<Rightarrow> map (buf_mem b) [0..<unat len])"

definition putdisplaylist :: "user_buffer option \<Rightarrow> 32 word \<Rightarrow> ioctl_arg" where
  "putdisplaylist buffer len =
     FT80XIOC_PUTDISPLAYLIST
       (case buffer of
          None \<Rightarrow> None
        | Some b \<Rightarrow> Some \<lparr>cmd_addr = buf_addr b, dlsize = len, cmd = buf_mem b\<rparr>)"

subsection \<open>Concrete inputs\<close>

text \<open>
  An instance with no open reference, a header with example values for the symbols the
  examples use, a device that answers the two identity reads as an FT800 does, and one
  that answers every read with zero.
\<close>

definition lower0 :: ft80x_config_s where
  "lower0 = \<lparr>init_frequency = 10000000, op_frequency = 30000000, has_destroy = True\<rparr>"

definition dev0 :: ft80x_dev_s where
  "dev0 = \<lparr>bus = 1, lower = lower0, frequency = 30000000, exclsem = 1, crefs = 0,
           unlinked = False\<rparr>"

definition hdr0 :: ft80x_hdr where
  "hdr0 s =
     (case s of
        FT80X_REG_ID \<Rightarrow> 0x102400 | FT80X_ROM_CHIPID \<Rightarrow> 0x0C0000 | ID_MASK \<Rightarrow> 0xff
      | FT80X_RAM_DL \<Rightarrow> 0x100000 | FT80X_RAM_DL_SIZE \<Rightarrow> 8192
      | FT80X_REG_TRACKER \<Rightarrow> 0x109000 | FT80X_REG_PCLK \<Rightarrow> 0x10246C
      | _ \<Rightarrow> 0)"

definition good_device :: ft80x_device where
  "good_device =
     \<lparr>dev_byte = (\<lambda>a. 0),
      dev_word = (\<lambda>a. if a = 0x102400 then 0x7c else if a = 0x0C0000 then 0x01000800 else 0)\<rparr>"

definition absent_device :: ft80x_device where
  "absent_device = \<lparr>dev_byte = (\<lambda>a. 0), dev_word = (\<lambda>a. 0)\<rparr>"

definition buffer0 :: user_buffer where
  "buffer0 = \<lparr>buf_addr = 0x20000000, buf_mem = (\<lambda>i. of_nat i)\<rparr>"

section \<open>Properties\<close>

subsection \<open>Arithmetic of the open count\<close>

lemma word8_255: "(255 :: 8 word) = - 1"
  by simp

lemma crefs_wrap: "(x :: 8 word) + 1 = 0 \<longleftrightarrow> x = 255"
  unfolding word8_255 by (rule add_eq_0_iff2)

subsection \<open>Open\<close>

text \<open>
  Claim C5.  When the semaphore is taken (\<open>nxsem_wait\<close> does not fail), \<open>ft80x_open\<close> on
  an instance whose open count is 255, the largest \<open>uint8_t\<close>, returns \<open>-EMFILE\<close> and
  leaves the instance as it was; on any other instance it returns \<open>OK\<close>, the open count is
  one more (without wrapping) and no other field changes.  In both cases the semaphore is
  posted and no transport call is made.
\<close>

theorem ft80x_open_refcount:
  assumes "0 \<le> w"
  shows "(crefs priv = 255 \<longrightarrow>
            ft80x_open w priv = (- EMFILE, [SemWait, RdCrefs, SemPost], Some priv))
       \<and> (crefs priv \<noteq> 255 \<longrightarrow>
            ft80x_open w priv =
              (OK, [SemWait, RdCrefs, WrCrefs (crefs priv + 1), SemPost],
               Some (priv\<lparr>crefs := crefs priv + 1\<rparr>))
            \<and> unat (crefs priv + 1) = unat (crefs priv) + 1)"
proof (cases "crefs priv = 255")
  case True
  with assms show ?thesis
    by (simp add: ft80x_open_def Let_def)
next
  case False
  then have nz: "crefs priv + 1 \<noteq> 0"
    by (simp add: crefs_wrap)
  then have "unat (crefs priv + 1) = unat (crefs priv) + 1"
    using unatSuc [of "crefs priv"] by (simp add: add.commute)
  with assms False nz show ?thesis
    by (simp add: ft80x_open_def Let_def)
qed

theorem ft80x_open_refcount_witness:
  "ft80x_open 0 (dev0\<lparr>crefs := 255\<rparr>) =
     (- EMFILE, [SemWait, RdCrefs, SemPost], Some (dev0\<lparr>crefs := 255\<rparr>))
   \<and> ft80x_open 0 dev0 =
     (OK, [SemWait, RdCrefs, WrCrefs 1, SemPost], Some (dev0\<lparr>crefs := 1\<rparr>))"
  using ft80x_open_refcount [of 0 "dev0\<lparr>crefs := 255\<rparr>"] ft80x_open_refcount [of 0 dev0]
  by (simp add: dev0_def)

text \<open>When the wait fails, \<open>ft80x_open\<close> and \<open>ft80x_close\<close> return its error and touch
  no field.\<close>

lemma ft80x_open_wait_failed:
  "w < 0 \<Longrightarrow> ft80x_open w priv = (w, [SemWaitFailed], Some priv)"
  by (simp add: ft80x_open_def)

lemma ft80x_close_wait_failed:
  "w < 0 \<Longrightarrow> ft80x_close w priv = (w, [SemWaitFailed], Some priv)"
  by (simp add: ft80x_close_def)

subsection \<open>Close\<close>

text \<open>
  Claim C6.  When the semaphore is taken, \<open>ft80x_close\<close> on an instance with more than one
  open reference returns \<open>OK\<close>, decrements the open count by one (without wrapping) and
  changes nothing else.  With at most one open reference it sets the count to 0; if the
  instance is unlinked it is destroyed inside this call (the lower half's \<open>destroy\<close> if
  there is one, then the semaphore, then the memory, and the semaphore is not posted);
  otherwise the instance survives with open count 0, nothing else changed, and a following
  \<open>ft80x_open\<close> succeeds and sets the count to 1.
\<close>

theorem ft80x_close_cases:
  assumes "0 \<le> w"
  shows "(1 < crefs priv \<longrightarrow>
            ft80x_close w priv =
              (OK, [SemWait, RdCrefs, RdCrefs, WrCrefs (crefs priv - 1), SemPost],
               Some (priv\<lparr>crefs := crefs priv - 1\<rparr>))
            \<and> unat (crefs priv - 1) = unat (crefs priv) - 1)
       \<and> (crefs priv \<le> 1 \<and> unlinked priv \<longrightarrow>
            ft80x_close w priv =
              (OK,
               [SemWait, RdCrefs, WrCrefs 0, RdUnlinked, Destroy 0 True]
                 @ (if has_destroy (lower priv) then [LowerDestroy] else [])
                 @ [SemDestroy, KmmFree],
               None))
       \<and> (crefs priv \<le> 1 \<and> \<not> unlinked priv \<longrightarrow>
            ft80x_close w priv =
              (OK, [SemWait, RdCrefs, WrCrefs 0, RdUnlinked, SemPost],
               Some (priv\<lparr>crefs := 0\<rparr>))
            \<and> ft80x_open w (priv\<lparr>crefs := 0\<rparr>) =
                (OK, [SemWait, RdCrefs, WrCrefs 1, SemPost], Some (priv\<lparr>crefs := 1\<rparr>)))"
proof (intro conjI impI)
  assume big: "1 < crefs priv"
  then have "\<not> crefs priv \<le> 1" by simp
  with assms show "ft80x_close w priv =
      (OK, [SemWait, RdCrefs, RdCrefs, WrCrefs (crefs priv - 1), SemPost],
       Some (priv\<lparr>crefs := crefs priv - 1\<rparr>))"
    by (simp add: ft80x_close_def Let_def)
  from big have "crefs priv \<noteq> 0" by auto
  then show "unat (crefs priv - 1) = unat (crefs priv) - 1"
    by (simp add: unat_minus_one)
next
  assume "crefs priv \<le> 1 \<and> unlinked priv"
  with assms show "ft80x_close w priv =
      (OK,
       [SemWait, RdCrefs, WrCrefs 0, RdUnlinked, Destroy 0 True]
         @ (if has_destroy (lower priv) then [LowerDestroy] else [])
         @ [SemDestroy, KmmFree],
       None)"
    by (simp add: ft80x_close_def ft80x_destroy_def Let_def)
next
  assume "crefs priv \<le> 1 \<and> \<not> unlinked priv"
  with assms show "ft80x_close w priv =
      (OK, [SemWait, RdCrefs, WrCrefs 0, RdUnlinked, SemPost], Some (priv\<lparr>crefs := 0\<rparr>))"
    by (simp add: ft80x_close_def Let_def)
next
  assume "crefs priv \<le> 1 \<and> \<not> unlinked priv"
  from assms show "ft80x_open w (priv\<lparr>crefs := 0\<rparr>) =
      (OK, [SemWait, RdCrefs, WrCrefs 1, SemPost], Some (priv\<lparr>crefs := 1\<rparr>))"
    by (simp add: ft80x_open_def Let_def)
qed

theorem ft80x_close_cases_witness:
  "ft80x_close 0 (dev0\<lparr>crefs := 3\<rparr>) =
     (OK, [SemWait, RdCrefs, RdCrefs, WrCrefs 2, SemPost], Some (dev0\<lparr>crefs := 2\<rparr>))
   \<and> ft80x_close 0 (dev0\<lparr>crefs := 1, unlinked := True\<rparr>) =
     (OK, [SemWait, RdCrefs, WrCrefs 0, RdUnlinked, Destroy 0 True, LowerDestroy, SemDestroy,
           KmmFree], None)
   \<and> ft80x_close 0 (dev0\<lparr>crefs := 1\<rparr>) =
     (OK, [SemWait, RdCrefs, WrCrefs 0, RdUnlinked, SemPost], Some dev0)
   \<and> ft80x_open 0 dev0 =
     (OK, [SemWait, RdCrefs, WrCrefs 1, SemPost], Some (dev0\<lparr>crefs := 1\<rparr>))"
  using ft80x_close_cases [of 0 "dev0\<lparr>crefs := 3\<rparr>"]
    ft80x_close_cases [of 0 "dev0\<lparr>crefs := 1, unlinked := True\<rparr>"]
    ft80x_close_cases [of 0 "dev0\<lparr>crefs := 1\<rparr>"]
  by (simp add: dev0_def lower0_def)

subsection \<open>Unlink\<close>

text \<open>
  Claim C10.  On an instance with an open reference (\<open>crefs > 0\<close>), \<open>ft80x_unlink\<close>
  returns \<open>OK\<close>, sets \<open>unlinked\<close> and changes no other field: the open count is as it
  was and nothing is destroyed.  A second \<open>ft80x_unlink\<close> in that state returns \<open>OK\<close> and
  leaves the instance as the first one left it.
\<close>

theorem ft80x_unlink_deferred:
  assumes "0 < crefs priv"
  shows "ft80x_unlink priv = (OK, [WrUnlinked True, RdCrefs], Some (priv\<lparr>unlinked := True\<rparr>))
       \<and> ft80x_unlink (priv\<lparr>unlinked := True\<rparr>) =
           (OK, [WrUnlinked True, RdCrefs], Some (priv\<lparr>unlinked := True\<rparr>))"
proof -
  from assms have "crefs priv \<noteq> 0" by auto
  then show ?thesis
    by (simp add: ft80x_unlink_def Let_def)
qed

theorem ft80x_unlink_deferred_witness:
  "(0 :: 8 word) < 2
   \<and> ft80x_unlink (dev0\<lparr>crefs := 2\<rparr>) =
       (OK, [WrUnlinked True, RdCrefs], Some (dev0\<lparr>crefs := 2, unlinked := True\<rparr>))
   \<and> ft80x_unlink (dev0\<lparr>crefs := 2, unlinked := True\<rparr>) =
       (OK, [WrUnlinked True, RdCrefs], Some (dev0\<lparr>crefs := 2, unlinked := True\<rparr>))"
  using ft80x_unlink_deferred [of "dev0\<lparr>crefs := 2\<rparr>"]
  by (simp add: dev0_def)

subsection \<open>The lock\<close>

text \<open>\<open>ft80x_open\<close> and \<open>ft80x_close\<close> read and write the two lifecycle fields only
  between \<open>nxsem_wait\<close> and \<open>nxsem_post\<close> (or \<open>sem_destroy\<close>).\<close>

lemma ft80x_open_accesses_locked: "accesses_locked False (fst (snd (ft80x_open w priv)))"
  by (simp add: ft80x_open_def Let_def is_access_def)

lemma ft80x_close_accesses_locked: "accesses_locked False (fst (snd (ft80x_close w priv)))"
  by (simp add: ft80x_close_def ft80x_destroy_def Let_def is_access_def)

text \<open>
  Claim C2 says that \<open>open\<close>, \<open>close\<close> and \<open>unlink\<close> all take the semaphore before they
  read or write \<open>crefs\<close> or \<open>unlinked\<close>.  \<open>ft80x_unlink\<close> does not: on every instance it
  writes \<open>unlinked\<close> and reads \<open>crefs\<close> (and may destroy the instance) without a call
  of \<open>nxsem_wait\<close>.
\<close>

theorem ft80x_unlink_takes_no_lock:
  "\<not> accesses_locked False (fst (snd (ft80x_unlink priv)))
   \<and> SemWait \<notin> set (fst (snd (ft80x_unlink priv)))"
  by (simp add: ft80x_unlink_def ft80x_destroy_def Let_def is_access_def)

subsection \<open>Sequences of open, close and unlink\<close>

lemma destroy_count_append: "destroy_count (xs @ ys) = destroy_count xs + destroy_count ys"
  by (simp add: destroy_count_def)

lemma nothing_after_free_append:
  "KmmFree \<notin> set xs \<Longrightarrow> nothing_after_free (xs @ ys) = nothing_after_free ys"
  by (induction xs) auto

text \<open>A call that leaves the instance allocated destroys nothing, and it keeps the
  instance out of the state "no open reference and unlinked".\<close>

lemma driver_call_survives:
  assumes "driver_call c priv = (r, ev, Some priv')"
  shows "destroy_count ev = 0" and "list_all destroy_idle ev" and "KmmFree \<notin> set ev"
    and "\<not> (crefs priv = 0 \<and> unlinked priv) \<Longrightarrow> \<not> (crefs priv' = 0 \<and> unlinked priv')"
proof -
  show "destroy_count ev = 0"
    using assms
    by (cases c)
      (auto simp: ft80x_open_def ft80x_close_def ft80x_unlink_def Let_def destroy_count_def
        is_destroy_def split: if_splits)
  show "list_all destroy_idle ev"
    using assms
    by (cases c)
      (auto simp: ft80x_open_def ft80x_close_def ft80x_unlink_def Let_def destroy_idle_def
        split: if_splits)
  show "KmmFree \<notin> set ev"
    using assms
    by (cases c)
      (auto simp: ft80x_open_def ft80x_close_def ft80x_unlink_def Let_def split: if_splits)
  show "\<not> (crefs priv = 0 \<and> unlinked priv) \<Longrightarrow> \<not> (crefs priv' = 0 \<and> unlinked priv')"
    using assms
    by (cases c)
      (auto simp: ft80x_open_def ft80x_close_def ft80x_unlink_def Let_def split: if_splits)
qed

text \<open>A call that frees the instance calls \<open>ft80x_destroy\<close> once, with no open reference
  and the unlinked flag set, and does nothing after \<open>kmm_free\<close>.\<close>

lemma driver_call_destroys:
  assumes "driver_call c priv = (r, ev, None)"
  shows "destroy_count ev = 1" and "list_all destroy_idle ev" and "nothing_after_free ev"
proof -
  show "destroy_count ev = 1"
    using assms
    by (cases c)
      (auto simp: ft80x_open_def ft80x_close_def ft80x_unlink_def ft80x_destroy_def Let_def
        destroy_count_def is_destroy_def split: if_splits)
  show "list_all destroy_idle ev"
    using assms
    by (cases c)
      (auto simp: ft80x_open_def ft80x_close_def ft80x_unlink_def ft80x_destroy_def Let_def
        destroy_idle_def split: if_splits)
  show "nothing_after_free ev"
    using assms
    by (cases c)
      (auto simp: ft80x_open_def ft80x_close_def ft80x_unlink_def ft80x_destroy_def Let_def
        split: if_splits)
qed

text \<open>
  Claim C1, as stated, asks for exactly one destruction in every sequence of calls.  A
  sequence that never unlinks the instance destroys nothing: after \<open>open\<close> and \<open>close\<close>
  the instance is as before and \<open>ft80x_destroy\<close> was not called.
\<close>

theorem destroy_exactly_once_counterexample:
  "run_calls [Open 0, Close 0] dev0 =
     Some ([SemWait, RdCrefs, WrCrefs 1, SemPost,
            SemWait, RdCrefs, WrCrefs 0, RdUnlinked, SemPost], Some dev0)
   \<and> destroy_count [SemWait, RdCrefs, WrCrefs 1, SemPost,
            SemWait, RdCrefs, WrCrefs 0, RdUnlinked, SemPost] = 0"
  by (simp add: dev0_def lower0_def ft80x_open_def ft80x_close_def Let_def destroy_count_def
      is_destroy_def)

text \<open>
  Claim C1, amended.  Take any finite sequence of \<open>open\<close>, \<open>close\<close> and \<open>unlink\<close> calls
  on an instance that is not already unlinked with no open reference, no call being made
  after the instance was freed (\<open>run_calls\<close> is \<open>Some\<close>), whatever the outcome of each
  wait for the semaphore.  Then \<open>ft80x_destroy\<close> is called at most once; it is called
  exactly once when the sequence ends with the instance freed and not at all otherwise;
  every call of it happens with \<open>crefs = 0\<close> and \<open>unlinked\<close> set; nothing at all is done
  after \<open>kmm_free\<close>; and an instance that is still allocated at the end is not in the
  state \<open>crefs = 0\<close> and \<open>unlinked\<close>.
\<close>

theorem destroy_at_most_once:
  assumes "run_calls cs priv = Some (tr, s)"
    and "\<not> (crefs priv = 0 \<and> unlinked priv)"
  shows "destroy_count tr \<le> 1
       \<and> (destroy_count tr = 1) = (s = None)
       \<and> list_all destroy_idle tr
       \<and> nothing_after_free tr
       \<and> (case s of None \<Rightarrow> True | Some p \<Rightarrow> \<not> (crefs p = 0 \<and> unlinked p))"
  using assms
proof (induction cs arbitrary: priv tr s)
  case Nil
  then show ?case
    by (auto simp: destroy_count_def)
next
  case (Cons c cs)
  obtain r ev s1 where step: "driver_call c priv = (r, ev, s1)"
    by (cases "driver_call c priv") auto
  show ?case
  proof (cases s1)
    case None
    with step Cons.prems(1) have "cs = []" and "tr = ev" and "s = None"
      by (auto split: if_splits)
    with driver_call_destroys [OF step [unfolded None]] show ?thesis
      by simp
  next
    case (Some priv')
    with step Cons.prems(1) obtain tr' where
      rest: "run_calls cs priv' = Some (tr', s)" and tr: "tr = ev @ tr'"
      by (auto split: option.splits)
    note surv = driver_call_survives [OF step [unfolded Some]]
    from surv(4) Cons.prems(2) have inv: "\<not> (crefs priv' = 0 \<and> unlinked priv')"
      by blast
    from Cons.IH [OF rest inv] surv(1,2,3) tr show ?thesis
      by (simp add: destroy_count_append nothing_after_free_append)
  qed
qed

theorem destroy_at_most_once_witness:
  "run_calls [Open 0, Unlink, Open 0, Close 0, Close 0] dev0 =
     Some ([SemWait, RdCrefs, WrCrefs 1, SemPost, WrUnlinked True, RdCrefs,
            SemWait, RdCrefs, WrCrefs 2, SemPost,
            SemWait, RdCrefs, RdCrefs, WrCrefs 1, SemPost,
            SemWait, RdCrefs, WrCrefs 0, RdUnlinked,
            Destroy 0 True, LowerDestroy, SemDestroy, KmmFree], None)
   \<and> \<not> (crefs dev0 = 0 \<and> unlinked dev0)
   \<and> destroy_count [SemWait, RdCrefs, WrCrefs 1, SemPost, WrUnlinked True, RdCrefs,
            SemWait, RdCrefs, WrCrefs 2, SemPost,
            SemWait, RdCrefs, RdCrefs, WrCrefs 1, SemPost,
            SemWait, RdCrefs, WrCrefs 0, RdUnlinked,
            Destroy 0 True, LowerDestroy, SemDestroy, KmmFree] = 1
   \<and> nothing_after_free [SemWait, RdCrefs, WrCrefs 1, SemPost, WrUnlinked True, RdCrefs,
            SemWait, RdCrefs, WrCrefs 2, SemPost,
            SemWait, RdCrefs, RdCrefs, WrCrefs 1, SemPost,
            SemWait, RdCrefs, WrCrefs 0, RdUnlinked,
            Destroy 0 True, LowerDestroy, SemDestroy, KmmFree]"
proof -
  have run: "run_calls [Open 0, Unlink, Open 0, Close 0, Close 0] dev0 =
     Some ([SemWait, RdCrefs, WrCrefs 1, SemPost, WrUnlinked True, RdCrefs,
            SemWait, RdCrefs, WrCrefs 2, SemPost,
            SemWait, RdCrefs, RdCrefs, WrCrefs 1, SemPost,
            SemWait, RdCrefs, WrCrefs 0, RdUnlinked,
            Destroy 0 True, LowerDestroy, SemDestroy, KmmFree], None)"
    by (simp add: dev0_def lower0_def ft80x_open_def ft80x_close_def ft80x_unlink_def
        ft80x_destroy_def Let_def word_le_nat_alt)
  have inv: "\<not> (crefs dev0 = 0 \<and> unlinked dev0)"
    by (simp add: dev0_def)
  from destroy_at_most_once [OF run inv] run inv show ?thesis
    by simp
qed

text \<open>The two destroying paths of the specification's examples: \<open>unlink\<close> before any
  \<open>open\<close> destroys inside \<open>unlink\<close>; \<open>unlink\<close> with one open reference defers to the
  \<open>close\<close> that follows.\<close>

lemma unlink_before_open_destroys:
  "ft80x_unlink dev0 =
     (OK, [WrUnlinked True, RdCrefs, Destroy 0 True, LowerDestroy, SemDestroy, KmmFree], None)"
  by (simp add: ft80x_unlink_def ft80x_destroy_def dev0_def lower0_def Let_def)

lemma call_after_free_undefined: "run_calls [Unlink, Unlink] dev0 = None"
  by (simp add: ft80x_unlink_def dev0_def Let_def)

subsection \<open>Bring-up\<close>

lemma unat_ucast8: "unat (ucast (x :: 8 word) :: 32 word) = unat x"
  using unsigned_less [of x, where 'a = nat]
  by (simp add: unsigned_ucast_eq take_bit_nat_eq_self_iff)

text \<open>No value of the eight bit variable \<open>regval32\<close> equals a \<open>ROMID\<close>.\<close>

lemma ucast8_not_ROMID: "(ucast (x :: 8 word) :: 32 word) \<noteq> ROMID c"
proof
  assume "(ucast x :: 32 word) = ROMID c"
  then have "unat (ucast x :: 32 word) = unat (ROMID c)"
    by simp
  moreover have "unat x < 256"
    using unsigned_less [of x, where 'a = nat] by simp
  ultimately show False
    by (cases c) (simp_all add: ROMID_def unat_ucast8)
qed

text \<open>The two ways \<open>ft80x_initialize\<close> can end: after the read of the chip identity
  register, or after the read of the ROM identity word.\<close>

lemma ft80x_initialize_cases:
  "ft80x_initialize h c d dev priv =
     (- ENODEV,
      [PwrDown False, MDelay 20, SetFrequency (init_frequency (lower priv)),
       HostCommand (h FT80X_CMD_CLKEXT), HostCommand (h FT80X_CMD_ACTIVE),
       ReadWord (h FT80X_REG_ID)],
      priv\<lparr>frequency := init_frequency (lower priv)\<rparr>)
   \<or> ft80x_initialize h c d dev priv =
     (- ENODEV,
      [PwrDown False, MDelay 20, SetFrequency (init_frequency (lower priv)),
       HostCommand (h FT80X_CMD_CLKEXT), HostCommand (h FT80X_CMD_ACTIVE),
       ReadWord (h FT80X_REG_ID), ReadWord (h FT80X_ROM_CHIPID)],
      priv\<lparr>frequency := init_frequency (lower priv)\<rparr>)"
  by (simp add: ft80x_initialize_def Let_def ucast8_not_ROMID)

text \<open>A device that answers both identity reads as an FT800 does is turned away after
  the second read.\<close>

lemma ft80x_initialize_good_device:
  "ft80x_initialize hdr0 FT800 WQVGA good_device dev0 =
     (- ENODEV,
      [PwrDown False, MDelay 20, SetFrequency 10000000, HostCommand 0, HostCommand 0,
       ReadWord 0x102400, ReadWord 0x0C0000],
      dev0\<lparr>frequency := 10000000\<rparr>)"
  by (simp add: ft80x_initialize_def Let_def hdr0_def good_device_def dev0_def lower0_def
      ROMID_def)

text \<open>
  Claim C3 says that bring-up aborts with \<open>-ENODEV\<close> if and only if an identity check
  fails, and goes on to program the registers when the device returns the expected chip
  identity and ROM identity word.  \<open>ft80x_initialize\<close> returns \<open>-ENODEV\<close> for every
  device, header and build: the ROM identity word is kept in a \<open>uint8_t\<close> and compared
  with \<open>0x01000800\<close> or \<open>0x01000801\<close>.
\<close>

theorem ft80x_initialize_never_ready:
  "fst (ft80x_initialize h c d dev priv) = - ENODEV"
  using ft80x_initialize_cases [of h c d dev priv] by auto

text \<open>The statements that follow the identity checks are in the order of the
  specification: pixel clock 0, the timing registers, the display list, the swap, the
  panel enable, the pixel clock divisor 5 as the last register write, and the operating
  frequency last of all.\<close>

lemma ft80x_initialize_display_order:
  "fst (ft80x_initialize_display h d dev priv) =
     [WriteByte (h FT80X_REG_PCLK) 0] @ timing_registers h d
     @ [WriteWord (h FT80X_RAM_DL + 0) (h FT80X_CLEAR_COLOR_RGB_0_0_0),
        WriteWord (h FT80X_RAM_DL + 4) (h FT80X_CLEAR_1_1_1),
        WriteWord (h FT80X_RAM_DL + 8) (h FT80X_DISPLAY),
        WriteByte (h FT80X_REG_DLSWAP) (ucast (h DLSWAP_FRAME)),
        ReadByte (h FT80X_REG_GPIO_DIR),
        WriteByte (h FT80X_REG_GPIO_DIR) (dev_byte dev (h FT80X_REG_GPIO_DIR) OR 128),
        ReadByte (h FT80X_REG_GPIO),
        WriteByte (h FT80X_REG_GPIO) (dev_byte dev (h FT80X_REG_GPIO) OR 128),
        WriteByte (h FT80X_REG_PCLK) 5,
        SetFrequency (op_frequency (lower priv))]"
  "last (filter is_write (fst (ft80x_initialize_display h d dev priv))) =
     WriteByte (h FT80X_REG_PCLK) 5"
  "last (fst (ft80x_initialize_display h d dev priv)) = SetFrequency (op_frequency (lower priv))"
  by (simp_all add: ft80x_initialize_display_def Let_def is_write_def)

text \<open>
  Claim C9 orders the register writes that bring-up records: pixel clock 0, the timing
  registers, the display list, the swap, the pixel clock enable, then the operating
  frequency.  No run of \<open>ft80x_initialize\<close> records a register write, and the frequency
  every run leaves is the initial one: each run returns at one of the two identity checks,
  before the statements of \<open>ft80x_initialize_display\<close>.
\<close>

theorem ft80x_initialize_writes_no_register:
  "filter is_write (fst (snd (ft80x_initialize h c d dev priv))) = []
   \<and> frequency (snd (snd (ft80x_initialize h c d dev priv))) = init_frequency (lower priv)"
  using ft80x_initialize_cases [of h c d dev priv] by (auto simp: is_write_def)

subsection \<open>Registration\<close>

text \<open>
  Claim C4 says that a failed registration releases the semaphore and the instance
  memory.  When \<open>ft80x_register\<close> has allocated the instance and returns an error, it has
  destroyed the semaphore and registered no node, but it has not called \<open>kmm_free\<close>: the
  instance memory is still allocated.
\<close>

theorem ft80x_register_failure_keeps_memory:
  assumes "fst (ft80x_register h c d dev True reg_ret spi lw) < 0"
  shows "KmmZalloc \<in> set (fst (snd (ft80x_register h c d dev True reg_ret spi lw)))
       \<and> SemDestroy \<in> set (fst (snd (ft80x_register h c d dev True reg_ret spi lw)))
       \<and> KmmFree \<notin> set (fst (snd (ft80x_register h c d dev True reg_ret spi lw)))
       \<and> RegisterDriver (DEVNAME c)
           \<notin> set (fst (snd (ft80x_register h c d dev True reg_ret spi lw)))
       \<and> snd (snd (ft80x_register h c d dev True reg_ret spi lw)) \<noteq> None"
  using ft80x_initialize_cases [of h c d dev
      "\<lparr>bus = spi, lower = lw, frequency = 0, exclsem = 1, crefs = 0, unlinked = False\<rparr>"]
  by (auto simp: ft80x_register_def Let_def)

theorem ft80x_register_failure_keeps_memory_witness:
  "fst (ft80x_register hdr0 FT800 WQVGA absent_device True 0 1 lower0) < 0
   \<and> ft80x_register hdr0 FT800 WQVGA absent_device True 0 1 lower0 =
     (- ENODEV,
      [KmmZalloc, SemInit, PwrDown False, MDelay 20, SetFrequency 10000000, HostCommand 0,
       HostCommand 0, ReadWord 0x102400, SemDestroy],
      Some \<lparr>bus = 1, lower = lower0, frequency = 10000000, exclsem = 1, crefs = 0,
            unlinked = False\<rparr>)
   \<and> KmmFree
       \<notin> set (fst (snd (ft80x_register hdr0 FT800 WQVGA absent_device True 0 1 lower0)))"
proof -
  have run: "ft80x_register hdr0 FT800 WQVGA absent_device True 0 1 lower0 =
     (- ENODEV,
      [KmmZalloc, SemInit, PwrDown False, MDelay 20, SetFrequency 10000000, HostCommand 0,
       HostCommand 0, ReadWord 0x102400, SemDestroy],
      Some \<lparr>bus = 1, lower = lower0, frequency = 10000000, exclsem = 1, crefs = 0,
            unlinked = False\<rparr>)"
    by (simp add: ft80x_register_def ft80x_initialize_def Let_def hdr0_def absent_device_def
        lower0_def)
  then have neg: "fst (ft80x_register hdr0 FT800 WQVGA absent_device True 0 1 lower0) < 0"
    by simp
  from ft80x_register_failure_keeps_memory [OF neg] run neg show ?thesis
    by simp
qed

subsection \<open>Write and the control operations\<close>

lemma mask2: "(3 :: 32 word) = mask 2"
  by (simp add: mask_eq_exp_minus_1)

lemma and3_mod4: "((x :: 32 word) AND 3 \<noteq> 0) = (unat x mod 4 \<noteq> 0)"
  using and_mask_dvd_nat [of 2 x] unfolding mask2 [symmetric]
  by (simp add: dvd_eq_mod_eq_0)

text \<open>The test the source makes on a buffer and a length is the specification's test
  of a request.\<close>

lemma request_invalid_iff:
  "request_invalid h buffer len =
     (case buffer of
        None \<Rightarrow> True
      | Some b \<Rightarrow> buf_addr b AND 3 \<noteq> 0 \<or> len = 0 \<or> len AND 3 \<noteq> 0
                  \<or> len > h FT80X_RAM_DL_SIZE)"
  by (cases buffer) (auto simp: request_invalid_def and3_mod4 unat_eq_0 word_less_nat_alt)

text \<open>
  Claim C7.  With the semaphore taken, \<open>ft80x_write\<close> on a buffer and a length and the
  PutDisplayList command on the same buffer and length agree.  When the request is invalid
  (null or misaligned pointer, length zero, not a multiple of 4, or above
  \<open>FT80X_RAM_DL_SIZE\<close>) both return \<open>-EINVAL\<close> and make no transport call; otherwise both
  make exactly one transport call, the block write of the \<open>len\<close> bytes of the buffer to
  \<open>FT80X_RAM_DL\<close>, and \<open>ft80x_write\<close> returns \<open>len\<close> while the command returns \<open>OK\<close>.
\<close>

theorem ft80x_write_is_putdisplaylist:
  assumes "0 \<le> w"
  shows "(request_invalid h buffer len \<longrightarrow>
            ft80x_write h w buffer len = (- EINVAL, [])
            \<and> fst (ft80x_ioctl h dev w (putdisplaylist buffer len)) = - EINVAL
            \<and> filter is_transport
                (fst (snd (ft80x_ioctl h dev w (putdisplaylist buffer len)))) = [])
       \<and> (\<not> request_invalid h buffer len \<longrightarrow>
            fst (ft80x_write h w buffer len) = int (unat len)
            \<and> fst (ft80x_ioctl h dev w (putdisplaylist buffer len)) = OK
            \<and> filter is_transport (snd (ft80x_write h w buffer len)) =
                [WriteMemory (h FT80X_RAM_DL) (request_bytes buffer len)]
            \<and> filter is_transport
                (fst (snd (ft80x_ioctl h dev w (putdisplaylist buffer len)))) =
                [WriteMemory (h FT80X_RAM_DL) (request_bytes buffer len)])"
proof (cases buffer)
  case None
  with assms show ?thesis
    by (simp add: request_invalid_iff ft80x_write_def ft80x_ioctl_def putdisplaylist_def
        is_transport_def)
next
  case (Some b)
  show ?thesis
  proof (cases "request_invalid h buffer len")
    case True
    with Some have bad: "buf_addr b AND 3 \<noteq> 0 \<or> len = 0 \<or> len AND 3 \<noteq> 0
        \<or> len > h FT80X_RAM_DL_SIZE"
      by (simp add: request_invalid_iff)
    with assms Some True show ?thesis
      by (simp add: ft80x_write_def ft80x_ioctl_def putdisplaylist_def is_transport_def)
  next
    case False
    with Some have good: "\<not> (buf_addr b AND 3 \<noteq> 0 \<or> len = 0 \<or> len AND 3 \<noteq> 0
        \<or> len > h FT80X_RAM_DL_SIZE)"
      by (simp add: request_invalid_iff)
    with assms Some False show ?thesis
      by (simp add: ft80x_write_def ft80x_ioctl_def putdisplaylist_def is_transport_def
          request_bytes_def)
  qed
qed

theorem ft80x_write_is_putdisplaylist_witness:
  "ft80x_write hdr0 0 (Some buffer0) 6 = (- EINVAL, [])
   \<and> fst (ft80x_ioctl hdr0 good_device 0 (putdisplaylist (Some buffer0) 6)) = - EINVAL
   \<and> ft80x_write hdr0 0 (Some buffer0) 8 =
       (8, [SemWait, WriteMemory 0x100000 [0, 1, 2, 3, 4, 5, 6, 7], SemPost])
   \<and> fst (ft80x_ioctl hdr0 good_device 0 (putdisplaylist (Some buffer0) 8)) = OK
   \<and> fst (snd (ft80x_ioctl hdr0 good_device 0 (putdisplaylist (Some buffer0) 8))) =
       [SemWait, WriteMemory 0x100000 [0, 1, 2, 3, 4, 5, 6, 7], SemPost]"
proof -
  have bad: "request_invalid hdr0 (Some buffer0) 6"
    by (simp add: request_invalid_def)
  have good: "\<not> request_invalid hdr0 (Some buffer0) 8"
    by (simp add: request_invalid_def buffer0_def hdr0_def)
  have w: "ft80x_write hdr0 0 (Some buffer0) 8 =
       (8, [SemWait, WriteMemory 0x100000 [0, 1, 2, 3, 4, 5, 6, 7], SemPost])"
    by (simp add: ft80x_write_def buffer0_def hdr0_def upt_rec and3_mod4 word_less_nat_alt)
  have i: "fst (snd (ft80x_ioctl hdr0 good_device 0 (putdisplaylist (Some buffer0) 8))) =
       [SemWait, WriteMemory 0x100000 [0, 1, 2, 3, 4, 5, 6, 7], SemPost]"
    by (simp add: ft80x_ioctl_def putdisplaylist_def buffer0_def hdr0_def upt_rec and3_mod4
        word_less_nat_alt)
  from ft80x_write_is_putdisplaylist [of 0 hdr0 "Some buffer0" 6 good_device]
    ft80x_write_is_putdisplaylist [of 0 hdr0 "Some buffer0" 8 good_device]
    bad good w i
  show ?thesis
    by simp
qed

text \<open>The part of claim C8 that the source keeps: an argument whose address is not word
  aligned, or an offset at or above \<open>FT80X_RAM_DL_SIZE\<close>, is refused with \<open>-EINVAL\<close> and no
  transport call.\<close>

lemma getresult32_rejects:
  assumes "0 \<le> w"
    and "offset_addr result AND 3 \<noteq> 0 \<or> offset result \<ge> h FT80X_RAM_DL_SIZE"
  shows "ft80x_ioctl h dev w (FT80XIOC_GETRESULT32 (Some result)) =
           (- EINVAL, [SemWait, SemPost], FT80XIOC_GETRESULT32 (Some result))"
  using assms by (auto simp: ft80x_ioctl_def)

text \<open>
  Claim C8 says that GetResult32 fails with \<open>-EINVAL\<close>, without a bus read, whenever the
  offset is not word aligned.  The source tests the address of the \<open>offset\<close> member, not
  its value: with the semaphore taken and a word aligned argument, every offset below
  \<open>FT80X_RAM_DL_SIZE\<close>, aligned or not, is accepted, and the word at \<open>FT80X_RAM_DL\<close> plus
  the offset is read and returned with \<open>OK\<close>.
\<close>

theorem getresult32_accepts_unaligned_offset:
  assumes "0 \<le> w" and "offset_addr result AND 3 = 0"
    and "offset result < h FT80X_RAM_DL_SIZE"
  shows "ft80x_ioctl h dev w (FT80XIOC_GETRESULT32 (Some result)) =
           (OK, [SemWait, ReadWord (h FT80X_RAM_DL + offset result), SemPost],
            FT80XIOC_GETRESULT32
              (Some (result\<lparr>result_value :=
                       dev_word dev (h FT80X_RAM_DL + offset result)\<rparr>)))"
  using assms by (simp add: ft80x_ioctl_def not_le)

theorem getresult32_accepts_unaligned_offset_witness:
  "ft80x_ioctl hdr0 good_device 0
     (FT80XIOC_GETRESULT32
        (Some \<lparr>offset_addr = 0x20000100, offset = 2, result_value = 7\<rparr>)) =
   (OK, [SemWait, ReadWord 0x100002, SemPost],
    FT80XIOC_GETRESULT32 (Some \<lparr>offset_addr = 0x20000100, offset = 2, result_value = 0\<rparr>))"
proof -
  have a: "offset_addr \<lparr>offset_addr = 0x20000100, offset = 2, result_value = 7\<rparr> AND 3
      = (0 :: 32 word)"
    by (simp add: and3_mod4 [simplified])
  have b: "offset \<lparr>offset_addr = 0x20000100, offset = 2, result_value = 7\<rparr>
      < hdr0 FT80X_RAM_DL_SIZE"
    by (simp add: hdr0_def word_less_nat_alt)
  from getresult32_accepts_unaligned_offset [of 0 _ hdr0 good_device, OF _ a b]
  show ?thesis
    by (simp add: hdr0_def good_device_def)
qed

end
